theory Spec2Isabelle
  imports Main
begin

section \<open>The secret helpers of api/v1alpha1\<close>

text \<open>
  \<^verbatim>\<open>humioaction_secret_helpers.go\<close> keeps a package-level map \<^verbatim>\<open>HaSecrets\<close> from
  the string \<^verbatim>\<open>"<namespace>-<name>"\<close> to a secret. The map is global mutable state, so
  the model passes it in and returns it updated. \<^verbatim>\<open>HumioAction\<close> is declared in
  another file of the package; only the fields the two helpers read are modelled. The field
  \<^verbatim>\<open>SlackPostMessageProperties\<close> is reached through a dereference in
  \<^verbatim>\<open>hn.Spec.SlackPostMessageProperties.ApiToken\<close>; it is modelled as optional, so that a
  nil pointer there is a branch of the model (the call panics) and not a hidden value.
\<close>

record HumioActionSlackPostMessageProperties =
  ApiToken :: string

record HumioActionSpec =
  SlackPostMessageProperties :: "HumioActionSlackPostMessageProperties option"

record HumioAction =
  hn_Namespace :: string
  hn_Name :: string
  hn_Spec :: HumioActionSpec

type_synonym HaSecretsMap = "string \<rightharpoonup> string"

text \<open>\<^verbatim>\<open>var HaSecrets map[string]string = make(map[string]string)\<close>\<close>

definition HaSecrets :: HaSecretsMap where
  "HaSecrets = Map.empty"

text \<open>\<^verbatim>\<open>fmt.Sprintf("%s-%s", hn.Namespace, hn.Name)\<close>, the key both helpers compute.\<close>

definition haSecretKey :: "HumioAction \<Rightarrow> string" where
  "haSecretKey hn = hn_Namespace hn @ ''-'' @ hn_Name hn"

definition HaHasSecret :: "HaSecretsMap \<Rightarrow> HumioAction \<Rightarrow> string \<times> bool" where
  "HaHasSecret secrets hn =
     (case secrets (haSecretKey hn) of
        Some secret \<Rightarrow> (secret, True)
      | None \<Rightarrow> ('''', False))"

text \<open>
  \<^verbatim>\<open>SecretFromHa\<close> returns nothing in Go; the model returns the updated map and the
  updated action, or \<open>None\<close> when reading the token panics on a nil pointer (line 19,
  before anything is stored).
\<close>

definition SecretFromHa :: "HaSecretsMap \<Rightarrow> HumioAction \<Rightarrow> (HaSecretsMap \<times> HumioAction) option" where
  "SecretFromHa secrets hn =
     (let key = haSecretKey hn in
      case SlackPostMessageProperties (hn_Spec hn) of
        None \<Rightarrow> None
      | Some props \<Rightarrow>
          (let value = ApiToken props;
               secrets' = secrets(key \<mapsto> value);
               hn' = hn\<lparr>hn_Spec := (hn_Spec hn)\<lparr>SlackPostMessageProperties :=
                        Some (props\<lparr>ApiToken := ''''\<rparr>)\<rparr>\<rparr>
           in Some (secrets', hn')))"

section \<open>The HumioAlert controller\<close>

subsection \<open>Errors\<close>

text \<open>
  Go errors are values; \<^verbatim>\<open>fmt.Errorf("%s: %w", msg, err)\<close> wraps one in a message and
  keeps it reachable for \<^verbatim>\<open>errors.As\<close>. \<open>EntityNotFound\<close> is \<^verbatim>\<open>humioapi.EntityNotFound\<close>;
  every other error of a collaborator is an \<open>ErrorString\<close>.
\<close>

datatype error = EntityNotFound | ErrorString string | Wrapped string error

text \<open>\<^verbatim>\<open>errors.As(err, &humioapi.EntityNotFound{})\<close>: false on a nil error, else a search
  along the chain of wrapped errors.\<close>

fun isEntityNotFound :: "error \<Rightarrow> bool" where
  "isEntityNotFound EntityNotFound = True"
| "isEntityNotFound (ErrorString m) = False"
| "isEntityNotFound (Wrapped m e) = isEntityNotFound e"

definition errorsAsEntityNotFound :: "error option \<Rightarrow> bool" where
  "errorsAsEntityNotFound err = (case err of None \<Rightarrow> False | Some e \<Rightarrow> isEntityNotFound e)"

text \<open>\<^verbatim>\<open>logErrorAndReturn\<close> (the log line is not modelled).\<close>

definition logErrorAndReturn :: "error \<Rightarrow> string \<Rightarrow> error" where
  "logErrorAndReturn err msg = Wrapped msg err"

subsection \<open>Data\<close>

text \<open>\<^verbatim>\<open>reconcile.Result\<close> and \<^verbatim>\<open>ctrl.Request\<close> of controller-runtime.\<close>

record Result =
  Requeue :: bool
  RequeueAfter :: int

definition Result0 :: Result where
  "Result0 = \<lparr>Requeue = False, RequeueAfter = 0\<rparr>"

record Request =
  req_Namespace :: string
  req_Name :: string

text \<open>
  \<^verbatim>\<open>HumioAlert\<close> (declared in \<^verbatim>\<open>api/v1alpha1\<close>): the fields the controller itself
  reads or writes; \<^verbatim>\<open>ha.Status.State\<close> is the reconciliation status. The remaining
  fields (the rest of the spec, annotations, ...) live in the extension slot of the
  record, so that every function below is stated for \<open>'s HumioAlert_scheme\<close>.
\<close>

record HumioAlertStatus =
  State :: string

record HumioAlert =
  ha_Namespace :: string
  ManagedClusterName :: string
  ExternalClusterName :: string
  DeletionTimestamp :: "nat option"
  Finalizers :: "string list"
  ha_Status :: HumioAlertStatus

text \<open>
  \<^verbatim>\<open>humioapi.Alert\<close>: the three fields \<^verbatim>\<open>sanitizeAlert\<close> clears; all other fields of the
  alert live in the extension slot.
\<close>

record Alert =
  TimeOfLastTrigger :: int
  ID :: string
  LastError :: string

text \<open>The result of \<^verbatim>\<open>helpers.NewCluster\<close>: \<^verbatim>\<open>cluster.Config()\<close> may be nil.\<close>

datatype Config = Config string

record Cluster =
  cluster_Config :: "Config option"

text \<open>The reconciler itself: only \<^verbatim>\<open>r.Namespace\<close> is data, the clients are in \<open>Env\<close>.\<close>

record HumioAlertReconciler =
  r_Namespace :: string

text \<open>
  Modelled from the spec: the constant \<^verbatim>\<open>humioFinalizer\<close> is declared in another file
  of package \<^verbatim>\<open>controllers\<close>. The spec calls the token "an opaque marker string"; the
  theorems about the controller hold for any value, and none of them unfolds this
  definition.
\<close>

definition humioFinalizer :: string where
  "humioFinalizer = ''core.humio.com/finalizer''"

text \<open>
  Modelled from the spec: the state constants of \<^verbatim>\<open>api/v1alpha1\<close> are declared with
  the type \<^verbatim>\<open>HumioAlert\<close>, in another file. The spec names the states \<open>Exists\<close>,
  \<open>NotFound\<close> and \<open>ConfigError\<close>.
\<close>

definition HumioAlertStateExists :: string where
  "HumioAlertStateExists = ''Exists''"

text \<open>Modelled from the spec: the state \<open>NotFound\<close>, declared with the others.\<close>

definition HumioAlertStateNotFound :: string where
  "HumioAlertStateNotFound = ''NotFound''"

text \<open>Modelled from the spec: the state \<open>ConfigError\<close>, declared with the others.\<close>

definition HumioAlertStateConfigError :: string where
  "HumioAlertStateConfigError = ''ConfigError''"

text \<open>
  Modelled from the spec: \<^verbatim>\<open>helpers.ContainsElement\<close> is a function of package
  \<^verbatim>\<open>helpers\<close>. The spec speaks of the token being "present" in or "absent" from the
  finalizer list.
\<close>

definition ContainsElement :: "string list \<Rightarrow> string \<Rightarrow> bool" where
  "ContainsElement list s = (s \<in> set list)"

text \<open>
  Modelled from the spec: \<^verbatim>\<open>helpers.RemoveElement\<close> is a function of package
  \<^verbatim>\<open>helpers\<close>. The spec has the controller "remove the finalizer token" from the list,
  after which the token "must be absent".
\<close>

definition RemoveElement :: "string list \<Rightarrow> string \<Rightarrow> string list" where
  "RemoveElement list s = removeAll s list"

subsection \<open>Collaborators and effects\<close>

text \<open>
  Every call that leaves the controller is an event; the controller appends it to a
  trace when it makes the call. The two writes to the store carry the object written.
\<close>

datatype 's Event =
    EvGet
  | EvNewCluster
  | EvGetAlert
  | EvAddAlert
  | EvUpdateAlert
  | EvDeleteAlert
  | EvGetActionIDsMapForAlerts
  | EvReconcileHumioAlertAnnotations
  | EvUpdate "'s HumioAlert_scheme"
  | EvStatusUpdate "'s HumioAlert_scheme"

fun isRemoteMutation :: "'s Event \<Rightarrow> bool" where
  "isRemoteMutation EvAddAlert = True"
| "isRemoteMutation EvUpdateAlert = True"
| "isRemoteMutation EvDeleteAlert = True"
| "isRemoteMutation _ = False"

fun isRemoteCall :: "'s Event \<Rightarrow> bool" where
  "isRemoteCall EvGetAlert = True"
| "isRemoteCall EvGetActionIDsMapForAlerts = True"
| "isRemoteCall ev = isRemoteMutation ev"

fun isStatusWrite :: "'s Event \<Rightarrow> bool" where
  "isStatusWrite (EvStatusUpdate ha) = True"
| "isStatusWrite _ = False"

fun isObjectWrite :: "'s Event \<Rightarrow> bool" where
  "isObjectWrite (EvUpdate ha) = True"
| "isObjectWrite _ = False"

text \<open>
  The collaborators: the Kubernetes client (\<^verbatim>\<open>r.Get\<close>, \<^verbatim>\<open>r.Update\<close>,
  \<^verbatim>\<open>r.Status().Update\<close>, \<^verbatim>\<open>k8serrors.IsNotFound\<close>), \<^verbatim>\<open>helpers.NewCluster\<close>, the Humio
  client and \<^verbatim>\<open>humio.AlertTransform\<close>. The controller only calls them, so each is a
  parameter: a function from the state \<open>'w\<close> of the world outside the controller to an
  answer and a new state of the world. A Go function returning a pointer and an error
  is a pair of options, since both may be nil. \<^verbatim>\<open>AlertTransform\<close> is pure.
  The collaborators read the object they are handed and do not change the fields modelled
  in \<open>HumioAlert\<close>. The last field, \<open>fixup_Annotations\<close>, is the body of
  \<^verbatim>\<open>reconcileHumioAlertAnnotations\<close> (see there).
\<close>

type_synonym ActionIdMap = "string \<rightharpoonup> string"

record ('w, 's, 'd) Env =
  k8s_IsNotFound :: "error \<Rightarrow> bool"
  k8s_Get :: "Request \<Rightarrow> 'w \<Rightarrow> ('s HumioAlert_scheme \<times> error option) \<times> 'w"
  k8s_Update :: "'s HumioAlert_scheme \<Rightarrow> 'w \<Rightarrow> error option \<times> 'w"
  k8s_Status_Update :: "'s HumioAlert_scheme \<Rightarrow> 'w \<Rightarrow> error option \<times> 'w"
  helpers_NewCluster :: "'s HumioAlert_scheme \<Rightarrow> 'w \<Rightarrow> (Cluster option \<times> error option) \<times> 'w"
  humio_GetAlert :: "Config \<Rightarrow> Request \<Rightarrow> 's HumioAlert_scheme \<Rightarrow> 'w
      \<Rightarrow> ('d Alert_scheme option \<times> error option) \<times> 'w"
  humio_AddAlert :: "Config \<Rightarrow> Request \<Rightarrow> 's HumioAlert_scheme \<Rightarrow> 'w
      \<Rightarrow> ('d Alert_scheme option \<times> error option) \<times> 'w"
  humio_UpdateAlert :: "Config \<Rightarrow> Request \<Rightarrow> 's HumioAlert_scheme \<Rightarrow> 'w
      \<Rightarrow> ('d Alert_scheme option \<times> error option) \<times> 'w"
  humio_DeleteAlert :: "Config \<Rightarrow> Request \<Rightarrow> 's HumioAlert_scheme \<Rightarrow> 'w \<Rightarrow> error option \<times> 'w"
  humio_GetActionIDsMapForAlerts :: "Config \<Rightarrow> Request \<Rightarrow> 's HumioAlert_scheme \<Rightarrow> 'w
      \<Rightarrow> (ActionIdMap \<times> error option) \<times> 'w"
  humio_AlertTransform :: "'s HumioAlert_scheme \<Rightarrow> ActionIdMap
      \<Rightarrow> 'd Alert_scheme option \<times> error option"
  fixup_Annotations :: "'d Alert_scheme option \<Rightarrow> 's HumioAlert_scheme \<Rightarrow> Request \<Rightarrow> 'w
      \<Rightarrow> (Result \<times> error option) \<times> 'w"

record ('w, 's) St =
  world :: 'w
  trace :: "'s Event list"

text \<open>A call: let the world answer, record the event.\<close>

definition call :: "'s Event \<Rightarrow> ('w \<Rightarrow> 'a \<times> 'w) \<Rightarrow> ('w, 's) St \<Rightarrow> 'a \<times> ('w, 's) St" where
  "call ev f s = (case f (world s) of (a, w) \<Rightarrow> (a, \<lparr>world = w, trace = trace s @ [ev]\<rparr>))"

definition Get :: "('w, 's, 'd) Env \<Rightarrow> Request \<Rightarrow> ('w, 's) St
    \<Rightarrow> ('s HumioAlert_scheme \<times> error option) \<times> ('w, 's) St" where
  "Get env req = call EvGet (k8s_Get env req)"

definition Update :: "('w, 's, 'd) Env \<Rightarrow> 's HumioAlert_scheme \<Rightarrow> ('w, 's) St
    \<Rightarrow> error option \<times> ('w, 's) St" where
  "Update env ha = call (EvUpdate ha) (k8s_Update env ha)"

definition Status_Update :: "('w, 's, 'd) Env \<Rightarrow> 's HumioAlert_scheme \<Rightarrow> ('w, 's) St
    \<Rightarrow> error option \<times> ('w, 's) St" where
  "Status_Update env ha = call (EvStatusUpdate ha) (k8s_Status_Update env ha)"

definition NewCluster :: "('w, 's, 'd) Env \<Rightarrow> 's HumioAlert_scheme \<Rightarrow> ('w, 's) St
    \<Rightarrow> (Cluster option \<times> error option) \<times> ('w, 's) St" where
  "NewCluster env ha = call EvNewCluster (helpers_NewCluster env ha)"

definition GetAlert :: "('w, 's, 'd) Env \<Rightarrow> Config \<Rightarrow> Request \<Rightarrow> 's HumioAlert_scheme
    \<Rightarrow> ('w, 's) St \<Rightarrow> ('d Alert_scheme option \<times> error option) \<times> ('w, 's) St" where
  "GetAlert env config req ha = call EvGetAlert (humio_GetAlert env config req ha)"

definition AddAlert :: "('w, 's, 'd) Env \<Rightarrow> Config \<Rightarrow> Request \<Rightarrow> 's HumioAlert_scheme
    \<Rightarrow> ('w, 's) St \<Rightarrow> ('d Alert_scheme option \<times> error option) \<times> ('w, 's) St" where
  "AddAlert env config req ha = call EvAddAlert (humio_AddAlert env config req ha)"

definition UpdateAlert :: "('w, 's, 'd) Env \<Rightarrow> Config \<Rightarrow> Request \<Rightarrow> 's HumioAlert_scheme
    \<Rightarrow> ('w, 's) St \<Rightarrow> ('d Alert_scheme option \<times> error option) \<times> ('w, 's) St" where
  "UpdateAlert env config req ha = call EvUpdateAlert (humio_UpdateAlert env config req ha)"

definition DeleteAlert :: "('w, 's, 'd) Env \<Rightarrow> Config \<Rightarrow> Request \<Rightarrow> 's HumioAlert_scheme
    \<Rightarrow> ('w, 's) St \<Rightarrow> error option \<times> ('w, 's) St" where
  "DeleteAlert env config req ha = call EvDeleteAlert (humio_DeleteAlert env config req ha)"

definition GetActionIDsMapForAlerts :: "('w, 's, 'd) Env \<Rightarrow> Config \<Rightarrow> Request
    \<Rightarrow> 's HumioAlert_scheme \<Rightarrow> ('w, 's) St \<Rightarrow> (ActionIdMap \<times> error option) \<times> ('w, 's) St" where
  "GetActionIDsMapForAlerts env config req ha =
     call EvGetActionIDsMapForAlerts (humio_GetActionIDsMapForAlerts env config req ha)"

text \<open>
  Modelled from the spec: \<^verbatim>\<open>reconcileHumioAlertAnnotations\<close> is a method of the
  reconciler defined in another file. The spec calls it "any dependent post-create
  fix-up (e.g., reconciling generated annotations)": one opaque step on the world that
  returns a result and an error. What it does to the store is inside that step and is
  not an event of its own.
\<close>

definition reconcileHumioAlertAnnotations :: "('w, 's, 'd) Env \<Rightarrow> 'd Alert_scheme option
    \<Rightarrow> 's HumioAlert_scheme \<Rightarrow> Request \<Rightarrow> ('w, 's) St \<Rightarrow> (Result \<times> error option) \<times> ('w, 's) St" where
  "reconcileHumioAlertAnnotations env addedAlert ha req =
     call EvReconcileHumioAlertAnnotations (fixup_Annotations env addedAlert ha req)"

subsection \<open>The controller\<close>

text \<open>The result of a call of the controller: it returns, or it panics on a nil pointer.\<close>

datatype Outcome = Returned Result "error option" | Panicked

definition sanitizeAlert :: "'d Alert_scheme \<Rightarrow> 'd Alert_scheme" where
  "sanitizeAlert alert = alert\<lparr>TimeOfLastTrigger := 0, ID := '''', LastError := ''''\<rparr>"

definition setState :: "('w, 's, 'd) Env \<Rightarrow> string \<Rightarrow> 's HumioAlert_scheme \<Rightarrow> ('w, 's) St
    \<Rightarrow> error option \<times> 's HumioAlert_scheme \<times> ('w, 's) St" where
  "setState env state ha s =
     (if State (ha_Status ha) = state then (None, ha, s)
      else
        (let ha1 = ha\<lparr>ha_Status := (ha_Status ha)\<lparr>State := state\<rparr>\<rparr> in
         case Status_Update env ha1 s of (err, s1) \<Rightarrow> (err, ha1, s1)))"

text \<open>
  \<^verbatim>\<open>reconcileHumioAlert\<close>, branch by branch in the order of the source. The object
  \<^verbatim>\<open>ha\<close> is a pointer in Go; the model returns the object as the pass leaves it.
  \<^verbatim>\<open>sanitizeAlert(curAlert)\<close> and \<^verbatim>\<open>*expectedAlert\<close> dereference pointers that the
  preceding error checks do not exclude from being nil.
\<close>

definition reconcileHumioAlert :: "('w, 's, 'd) Env \<Rightarrow> Config \<Rightarrow> 's HumioAlert_scheme \<Rightarrow> Request
    \<Rightarrow> ('w, 's) St \<Rightarrow> Outcome \<times> 's HumioAlert_scheme \<times> ('w, 's) St" where
  "reconcileHumioAlert env config ha req s =
     (let isMarkedForDeletion = (DeletionTimestamp ha \<noteq> None) in
      if isMarkedForDeletion then
        (if ContainsElement (Finalizers ha) humioFinalizer then
           (case DeleteAlert env config req ha s of
              (Some err, s1) \<Rightarrow>
                (Returned Result0 (Some (logErrorAndReturn err ''Delete alert returned error'')), ha, s1)
            | (None, s1) \<Rightarrow>
                (let ha1 = ha\<lparr>Finalizers := RemoveElement (Finalizers ha) humioFinalizer\<rparr> in
                 case Update env ha1 s1 of
                   (Some err, s2) \<Rightarrow> (Returned Result0 (Some err), ha1, s2)
                 | (None, s2) \<Rightarrow> (Returned Result0 None, ha1, s2)))
         else (Returned Result0 None, ha, s))
      else if \<not> ContainsElement (Finalizers ha) humioFinalizer then
        (let ha1 = ha\<lparr>Finalizers := Finalizers ha @ [humioFinalizer]\<rparr> in
         case Update env ha1 s of
           (Some err, s1) \<Rightarrow> (Returned Result0 (Some err), ha1, s1)
         | (None, s1) \<Rightarrow> (Returned (Result0\<lparr>Requeue := True\<rparr>) None, ha1, s1))
      else
        (case GetAlert env config req ha s of ((curAlert, err), s1) \<Rightarrow>
           if errorsAsEntityNotFound err then
             (case AddAlert env config req ha s1 of
                ((addedAlert, Some err2), s2) \<Rightarrow>
                  (Returned Result0 (Some (logErrorAndReturn err2 ''could not create alert'')), ha, s2)
              | ((addedAlert, None), s2) \<Rightarrow>
                  (case reconcileHumioAlertAnnotations env addedAlert ha req s2 of
                     ((result, Some err3), s3) \<Rightarrow> (Returned result (Some err3), ha, s3)
                   | ((result, None), s3) \<Rightarrow> (Returned (Result0\<lparr>Requeue := True\<rparr>) None, ha, s3)))
           else
             (case err of
                Some e \<Rightarrow>
                  (Returned Result0 (Some (logErrorAndReturn e ''could not check if alert exists'')), ha, s1)
              | None \<Rightarrow>
                  (case GetActionIDsMapForAlerts env config req ha s1 of
                     ((actionIdMap, Some e), s2) \<Rightarrow>
                       (Returned Result0 (Some (logErrorAndReturn e ''could not get action id mapping'')), ha, s2)
                   | ((actionIdMap, None), s2) \<Rightarrow>
                       (case humio_AlertTransform env ha actionIdMap of
                          (expectedAlert, Some e) \<Rightarrow>
                            (Returned Result0 (Some (logErrorAndReturn e ''could not parse expected Alert'')), ha, s2)
                        | (expectedAlert, None) \<Rightarrow>
                            (case curAlert of
                               None \<Rightarrow> (Panicked, ha, s2)
                             | Some cur \<Rightarrow>
                                 (let cur' = sanitizeAlert cur in
                                  case expectedAlert of
                                    None \<Rightarrow> (Panicked, ha, s2)
                                  | Some expected \<Rightarrow>
                                      if cur' \<noteq> expected then
                                        (case UpdateAlert env config req ha s2 of
                                           ((alert, Some e), s3) \<Rightarrow>
                                             (Returned Result0 (Some (logErrorAndReturn e ''could not update alert'')), ha, s3)
                                         | ((alert, None), s3) \<Rightarrow> (Returned Result0 None, ha, s3))
                                      else (Returned Result0 None, ha, s2))))))))"

text \<open>
  The function deferred in \<^verbatim>\<open>Reconcile\<close> (lines 88 to 99). Each result of
  \<^verbatim>\<open>setState\<close> is assigned to \<^verbatim>\<open>_\<close>.
\<close>

definition statusRefresh :: "('w, 's, 'd) Env \<Rightarrow> Config \<Rightarrow> Request \<Rightarrow> 's HumioAlert_scheme
    \<Rightarrow> ('w, 's) St \<Rightarrow> 's HumioAlert_scheme \<times> ('w, 's) St" where
  "statusRefresh env config req ha s =
     (case GetAlert env config req ha s of ((curAlert, err), s1) \<Rightarrow>
        if errorsAsEntityNotFound err then
          (case setState env HumioAlertStateNotFound ha s1 of (_, ha1, s2) \<Rightarrow> (ha1, s2))
        else if err \<noteq> None \<or> curAlert = None then
          (case setState env HumioAlertStateConfigError ha s1 of (_, ha1, s2) \<Rightarrow> (ha1, s2))
        else
          (case setState env HumioAlertStateExists ha s1 of (_, ha1, s2) \<Rightarrow> (ha1, s2)))"

text \<open>
  \<^verbatim>\<open>cluster.Config()\<close> of a result of \<^verbatim>\<open>helpers.NewCluster\<close>, when the test on line 79
  lets the pass go on: no error, a cluster, a configuration.
\<close>

definition usableConfig :: "Cluster option \<times> error option \<Rightarrow> Config option" where
  "usableConfig res =
     (case res of
        (cluster, Some err) \<Rightarrow> None
      | (None, None) \<Rightarrow> None
      | (Some cluster, None) \<Rightarrow> cluster_Config cluster)"

text \<open>
  \<^verbatim>\<open>Reconcile\<close>. The object is returned with the outcome when one was loaded. On the
  path of lines 79 to 86 the variable \<^verbatim>\<open>err\<close> is assigned the result of
  \<^verbatim>\<open>setState\<close> on line 81, and that variable is what line 85 returns. The deferred
  function runs after \<^verbatim>\<open>reconcileHumioAlert\<close>, also when that panics, and cannot touch
  the unnamed results of \<^verbatim>\<open>Reconcile\<close>.
\<close>

definition Reconcile :: "('w, 's, 'd) Env \<Rightarrow> HumioAlertReconciler \<Rightarrow> Request \<Rightarrow> ('w, 's) St
    \<Rightarrow> Outcome \<times> 's HumioAlert_scheme option \<times> ('w, 's) St" where
  "Reconcile env r req s =
     (if r_Namespace r \<noteq> '''' \<and> r_Namespace r \<noteq> req_Namespace req then (Returned Result0 None, None, s)
      else
        (case Get env req s of
           ((ha, Some err), s1) \<Rightarrow>
             if k8s_IsNotFound env err then (Returned Result0 None, None, s1)
             else (Returned Result0 (Some err), None, s1)
         | ((ha, None), s1) \<Rightarrow>
             (case NewCluster env ha s1 of (res, s2) \<Rightarrow>
                (case usableConfig res of
                   None \<Rightarrow>
                     (case setState env HumioAlertStateConfigError ha s2 of (err, ha1, s3) \<Rightarrow>
                        (case err of
                           Some e \<Rightarrow>
                             (Returned Result0 (Some (logErrorAndReturn e ''unable to set alert state'')), Some ha1, s3)
                         | None \<Rightarrow> (Returned Result0 err, Some ha1, s3)))
                 | Some config \<Rightarrow>
                     (case reconcileHumioAlert env config ha req s2 of (out, ha1, s3) \<Rightarrow>
                        (case statusRefresh env config req ha1 s3 of (ha2, s4) \<Rightarrow>
                           (out, Some ha2, s4)))))))"

subsection \<open>Concrete scenarios\<close>

text \<open>
  A small world for running the controller: the state of the world is the alert the
  remote service holds, if any. The client finds it or answers \<open>EntityNotFound\<close>,
  creates and updates it with a server-side identifier, and deletes it. The store hands
  out one fixed object and accepts every write. The declarative part of an alert is its
  query string.
\<close>

definition alert_desired :: "string Alert_scheme" where
  "alert_desired = \<lparr>TimeOfLastTrigger = 0, ID = '''', LastError = '''', \<dots> = ''level=error''\<rparr>"

definition alert_remote :: "string Alert_scheme" where
  "alert_remote =
     \<lparr>TimeOfLastTrigger = 1700000000, ID = ''id-1'', LastError = ''timeout'', \<dots> = ''level=error''\<rparr>"

definition alert_drifted :: "string Alert_scheme" where
  "alert_drifted =
     \<lparr>TimeOfLastTrigger = 1700000000, ID = ''id-1'', LastError = '''', \<dots> = ''level=warn''\<rparr>"

definition alert_annotated :: "string Alert_scheme" where
  "alert_annotated = \<lparr>TimeOfLastTrigger = 0, ID = ''id-1'', LastError = '''', \<dots> = ''level=error''\<rparr>"

definition ha_new :: HumioAlert where
  "ha_new = \<lparr>ha_Namespace = ''default'', ManagedClusterName = ''humio'', ExternalClusterName = '''',
     DeletionTimestamp = None, Finalizers = [], ha_Status = \<lparr>State = ''''\<rparr>\<rparr>"

definition ha_live :: HumioAlert where
  "ha_live = ha_new\<lparr>Finalizers := [''other/finalizer'', humioFinalizer],
     ha_Status := \<lparr>State = HumioAlertStateExists\<rparr>\<rparr>"

definition ha_deleting :: HumioAlert where
  "ha_deleting = ha_live\<lparr>DeletionTimestamp := Some 1700000100\<rparr>"

definition ha_gone :: HumioAlert where
  "ha_gone = ha_new\<lparr>DeletionTimestamp := Some 1700000100, ha_Status := \<lparr>State = HumioAlertStateExists\<rparr>\<rparr>"

definition req0 :: Request where
  "req0 = \<lparr>req_Namespace = ''default'', req_Name = ''disk-full''\<rparr>"

definition r0 :: HumioAlertReconciler where
  "r0 = \<lparr>r_Namespace = ''''\<rparr>"

definition cfg0 :: Config where
  "cfg0 = Config ''https://humio.example''"

definition env_sim :: "HumioAlert \<Rightarrow> (string Alert_scheme option, unit, string) Env" where
  "env_sim obj =
     \<lparr>k8s_IsNotFound = (\<lambda>e. False),
      k8s_Get = (\<lambda>req w. ((obj, None), w)),
      k8s_Update = (\<lambda>ha w. (None, w)),
      k8s_Status_Update = (\<lambda>ha w. (None, w)),
      helpers_NewCluster = (\<lambda>ha w. ((Some \<lparr>cluster_Config = Some cfg0\<rparr>, None), w)),
      humio_GetAlert = (\<lambda>config req ha w.
         case w of None \<Rightarrow> ((None, Some EntityNotFound), w) | Some a \<Rightarrow> ((Some a, None), w)),
      humio_AddAlert = (\<lambda>config req ha w. ((Some alert_desired, None), Some (alert_desired\<lparr>ID := ''id-1''\<rparr>))),
      humio_UpdateAlert = (\<lambda>config req ha w. ((Some alert_desired, None), Some (alert_desired\<lparr>ID := ''id-1''\<rparr>))),
      humio_DeleteAlert = (\<lambda>config req ha w. (None, None)),
      humio_GetActionIDsMapForAlerts = (\<lambda>config req ha w. (([''slack-ops'' \<mapsto> ''action-1''], None), w)),
      humio_AlertTransform = (\<lambda>ha actionIdMap. (Some alert_desired, None)),
      fixup_Annotations = (\<lambda>addedAlert ha req w. ((Result0, None), w))\<rparr>"

text \<open>The same world with a remote service that refuses to delete.\<close>

definition env_delete_fails :: "HumioAlert \<Rightarrow> (string Alert_scheme option, unit, string) Env" where
  "env_delete_fails obj =
     (env_sim obj)\<lparr>humio_DeleteAlert := (\<lambda>config req ha w. (Some (ErrorString ''connection refused''), w))\<rparr>"

text \<open>The same world with a remote service that refuses to create.\<close>

definition env_add_fails :: "HumioAlert \<Rightarrow> (string Alert_scheme option, unit, string) Env" where
  "env_add_fails obj =
     (env_sim obj)\<lparr>humio_AddAlert := (\<lambda>config req ha w. ((None, Some (ErrorString ''connection refused'')), w))\<rparr>"

text \<open>The same world with a Transform whose result carries an identifier.\<close>

definition env_transform_id :: "HumioAlert \<Rightarrow> (string Alert_scheme option, unit, string) Env" where
  "env_transform_id obj =
     (env_sim obj)\<lparr>humio_AlertTransform := (\<lambda>ha actionIdMap. (Some alert_annotated, None))\<rparr>"

text \<open>The same world where no cluster configuration can be found.\<close>

definition env_no_config :: "HumioAlert \<Rightarrow> (string Alert_scheme option, unit, string) Env" where
  "env_no_config obj =
     (env_sim obj)\<lparr>helpers_NewCluster := (\<lambda>ha w. ((None, Some (ErrorString ''no such cluster'')), w))\<rparr>"

text \<open>Two actions for the secret helpers.\<close>

definition hn_example :: HumioAction where
  "hn_example = \<lparr>hn_Namespace = ''default'', hn_Name = ''slack'',
     hn_Spec = \<lparr>SlackPostMessageProperties = Some \<lparr>ApiToken = ''xoxb-1''\<rparr>\<rparr>\<rparr>"

definition hn_other :: HumioAction where
  "hn_other = \<lparr>hn_Namespace = ''default'', hn_Name = ''ops'',
     hn_Spec = \<lparr>SlackPostMessageProperties = None\<rparr>\<rparr>"

definition s_absent :: "(string Alert_scheme option, unit) St" where
  "s_absent = \<lparr>world = None, trace = []\<rparr>"

definition s_present :: "(string Alert_scheme option, unit) St" where
  "s_present = \<lparr>world = Some alert_remote, trace = []\<rparr>"

definition s_drifted :: "(string Alert_scheme option, unit) St" where
  "s_drifted = \<lparr>world = Some alert_drifted, trace = []\<rparr>"

section \<open>Properties of the secret helpers\<close>

lemma SecretFromHa_key_kept:
  "SecretFromHa secrets hn = Some (secrets', hn') \<Longrightarrow>
     hn_Namespace hn' = hn_Namespace hn \<and> hn_Name hn' = hn_Name hn"
  by (auto simp: SecretFromHa_def Let_def split: option.splits)

lemma SecretFromHa_other_keys:
  "SecretFromHa secrets hn = Some (secrets', hn') \<Longrightarrow>
     k \<noteq> hn_Namespace hn @ ''-'' @ hn_Name hn \<Longrightarrow> secrets' k = secrets k"
  by (auto simp: SecretFromHa_def haSecretKey_def Let_def split: option.splits)

text \<open>
  Claim C10. Let \<open>t\<close> be the token of the action before the call. \<^verbatim>\<open>SecretFromHa\<close>
  returns; it stores \<open>t\<close> under the string made of the namespace, a hyphen and the name
  of the action, and changes no other entry of the map; the token field of the action is
  cleared and its namespace and name are kept; \<^verbatim>\<open>HaHasSecret\<close> on the action, before
  or after the clearing, then returns \<open>(t, true)\<close>. An action whose namespace-name
  string has no entry in the map gets \<open>("", false)\<close>: so does every action on the
  empty map the package starts with, and so does, after the call, an action with a
  different namespace-name string that had no entry before.
\<close>

theorem SecretFromHa_then_HaHasSecret:
  "(SlackPostMessageProperties (hn_Spec hn) = Some props \<longrightarrow>
      (\<exists>secrets' hn'. SecretFromHa secrets hn = Some (secrets', hn') \<and>
          HaHasSecret secrets' hn' = (ApiToken props, True) \<and>
          HaHasSecret secrets' hn = (ApiToken props, True) \<and>
          map_option ApiToken (SlackPostMessageProperties (hn_Spec hn')) = Some '''' \<and>
          hn_Namespace hn' = hn_Namespace hn \<and> hn_Name hn' = hn_Name hn \<and>
          secrets' (hn_Namespace hn @ ''-'' @ hn_Name hn) = Some (ApiToken props) \<and>
          (\<forall>k. k \<noteq> hn_Namespace hn @ ''-'' @ hn_Name hn \<longrightarrow> secrets' k = secrets k) \<and>
          (hn_Namespace other @ ''-'' @ hn_Name other \<noteq> hn_Namespace hn @ ''-'' @ hn_Name hn \<and>
           secrets (hn_Namespace other @ ''-'' @ hn_Name other) = None \<longrightarrow>
             HaHasSecret secrets' other = ('''', False)))) \<and>
   (secrets (hn_Namespace other @ ''-'' @ hn_Name other) = None \<longrightarrow>
      HaHasSecret secrets other = ('''', False)) \<and>
   (\<forall>secret. secrets (hn_Namespace other @ ''-'' @ hn_Name other) = Some secret \<longrightarrow>
      HaHasSecret secrets other = (secret, True)) \<and>
   HaHasSecret HaSecrets other = ('''', False)"
  by (auto simp: SecretFromHa_def HaHasSecret_def haSecretKey_def HaSecrets_def
      Let_def split: option.splits)

theorem SecretFromHa_then_HaHasSecret_witness:
  "SlackPostMessageProperties (hn_Spec hn_example) = Some \<lparr>ApiToken = ''xoxb-1''\<rparr> \<and>
   hn_Namespace hn_other @ ''-'' @ hn_Name hn_other \<noteq>
     hn_Namespace hn_example @ ''-'' @ hn_Name hn_example \<and>
   HaSecrets (hn_Namespace hn_other @ ''-'' @ hn_Name hn_other) = None \<and>
   (\<exists>secrets' hn'. SecretFromHa HaSecrets hn_example = Some (secrets', hn') \<and>
      secrets' ''default-slack'' = Some ''xoxb-1'' \<and>
      secrets' ''default-ops'' = None \<and>
      HaHasSecret secrets' hn' = (''xoxb-1'', True) \<and>
      map_option ApiToken (SlackPostMessageProperties (hn_Spec hn')) = Some '''' \<and>
      HaHasSecret secrets' hn_other = ('''', False)) \<and>
   HaHasSecret HaSecrets hn_other = ('''', False)"
proof -
  have tok: "SlackPostMessageProperties (hn_Spec hn_example) = Some \<lparr>ApiToken = ''xoxb-1''\<rparr>"
    by (simp add: hn_example_def)
  have differ: "hn_Namespace hn_other @ ''-'' @ hn_Name hn_other \<noteq>
      hn_Namespace hn_example @ ''-'' @ hn_Name hn_example"
    by (simp add: hn_example_def hn_other_def)
  have fresh: "HaSecrets (hn_Namespace hn_other @ ''-'' @ hn_Name hn_other) = None"
    by (simp add: HaSecrets_def)
  from SecretFromHa_then_HaHasSecret
    [of hn_example "\<lparr>ApiToken = ''xoxb-1''\<rparr>" HaSecrets hn_other] tok differ fresh
  obtain secrets' hn' where r: "SecretFromHa HaSecrets hn_example = Some (secrets', hn')"
      "HaHasSecret secrets' hn' = (''xoxb-1'', True)"
      "map_option ApiToken (SlackPostMessageProperties (hn_Spec hn')) = Some ''''"
      "secrets' (hn_Namespace hn_example @ ''-'' @ hn_Name hn_example) = Some ''xoxb-1''"
      "\<forall>k. k \<noteq> hn_Namespace hn_example @ ''-'' @ hn_Name hn_example \<longrightarrow> secrets' k = HaSecrets k"
      "HaHasSecret secrets' hn_other = ('''', False)"
      "HaHasSecret HaSecrets hn_other = ('''', False)"
    by auto
  from r(4) have s1: "secrets' ''default-slack'' = Some ''xoxb-1''"
    by (simp add: hn_example_def)
  from r(5) have s2: "secrets' ''default-ops'' = None"
    by (simp add: hn_example_def HaSecrets_def)
  from tok differ fresh r s1 s2 show ?thesis by blast
qed

section \<open>Properties of the controller\<close>

subsection \<open>Effects of the building blocks\<close>

lemmas call_defs = call_def Get_def Update_def Status_Update_def NewCluster_def GetAlert_def
  AddAlert_def UpdateAlert_def DeleteAlert_def GetActionIDsMapForAlerts_def
  reconcileHumioAlertAnnotations_def

lemma ContainsElement_RemoveElement: "\<not> ContainsElement (RemoveElement list s) s"
  by (simp add: ContainsElement_def RemoveElement_def)

lemma ContainsElement_append: "ContainsElement (list @ [s]) s"
  by (simp add: ContainsElement_def)

lemma setState_effect:
  "setState env st ha s = (err, ha', s') \<Longrightarrow>
     ha' = ha\<lparr>ha_Status := (ha_Status ha)\<lparr>State := st\<rparr>\<rparr> \<and>
     (if State (ha_Status ha) = st then s' = s \<and> err = None
      else trace s' = trace s @ [EvStatusUpdate ha'] \<and>
           err = fst (k8s_Status_Update env ha' (world s)) \<and>
           world s' = snd (k8s_Status_Update env ha' (world s)))"
  by (auto simp: setState_def call_defs Let_def split: prod.splits if_splits)

lemma statusRefresh_effect:
  "statusRefresh env config req ha s = (ha', s') \<Longrightarrow>
   humio_GetAlert env config req ha (world s) = ((curAlert, err), w1) \<Longrightarrow>
     ha' = ha\<lparr>ha_Status := (ha_Status ha)\<lparr>State :=
        (if errorsAsEntityNotFound err then HumioAlertStateNotFound
         else if err \<noteq> None \<or> curAlert = None then HumioAlertStateConfigError
         else HumioAlertStateExists)\<rparr>\<rparr> \<and>
     (if State (ha_Status ha) = State (ha_Status ha')
      then trace s' = trace s @ [EvGetAlert] \<and> world s' = w1
      else trace s' = trace s @ [EvGetAlert, EvStatusUpdate ha'] \<and>
           world s' = snd (k8s_Status_Update env ha' w1))"
  by (auto simp: statusRefresh_def call_defs split: prod.splits if_splits dest!: setState_effect)

lemma statusRefresh_events:
  assumes "statusRefresh env config req ha s = (ha', s')"
  shows "\<exists>evs. trace s' = trace s @ evs \<and>
       filter isRemoteMutation evs = [] \<and>
       length (filter isStatusWrite evs) \<le> 1 \<and>
       filter isObjectWrite evs = [] \<and>
       filter isRemoteCall evs = [EvGetAlert]"
proof -
  obtain curAlert err w1 where "humio_GetAlert env config req ha (world s) = ((curAlert, err), w1)"
    by (metis surj_pair)
  from statusRefresh_effect [OF assms this]
  have "trace s' = trace s @ [EvGetAlert] \<or> trace s' = trace s @ [EvGetAlert, EvStatusUpdate ha']"
    by (simp split: if_splits)
  then show ?thesis by auto
qed

lemma reconcileHumioAlert_events_aux:
  "case reconcileHumioAlert env config ha req s of (out, ha', s') \<Rightarrow>
     \<exists>evs. trace s' = trace s @ evs \<and>
       length (filter isRemoteMutation evs) \<le> 1 \<and>
       filter isStatusWrite evs = [] \<and>
       length (filter isObjectWrite evs) \<le> 1 \<and>
       ha_Status ha' = ha_Status ha \<and>
       (filter isRemoteCall evs \<noteq> [] \<longrightarrow> ContainsElement (Finalizers ha) humioFinalizer)"
  by (simp add: reconcileHumioAlert_def call_defs Let_def case_prod_beta split: option.split)

lemma reconcileHumioAlert_events:
  "reconcileHumioAlert env config ha req s = (out, ha', s') \<Longrightarrow>
     \<exists>evs. trace s' = trace s @ evs \<and>
       length (filter isRemoteMutation evs) \<le> 1 \<and>
       filter isStatusWrite evs = [] \<and>
       length (filter isObjectWrite evs) \<le> 1 \<and>
       ha_Status ha' = ha_Status ha \<and>
       (filter isRemoteCall evs \<noteq> [] \<longrightarrow> ContainsElement (Finalizers ha) humioFinalizer)"
  using reconcileHumioAlert_events_aux [where env=env and config=config and ha=ha and req=req and s=s]
  by simp

lemmas scenario_defs = alert_desired_def alert_remote_def alert_drifted_def alert_annotated_def
  ha_new_def ha_live_def ha_deleting_def ha_gone_def req0_def r0_def cfg0_def env_sim_def
  env_delete_fails_def env_add_fails_def env_transform_id_def env_no_config_def
  s_absent_def s_present_def s_drifted_def

lemmas controller_defs = Reconcile_def reconcileHumioAlert_def statusRefresh_def setState_def
  usableConfig_def sanitizeAlert_def errorsAsEntityNotFound_def logErrorAndReturn_def
  ContainsElement_def RemoveElement_def Result0_def Let_def
  HumioAlertStateExists_def HumioAlertStateNotFound_def HumioAlertStateConfigError_def

subsection \<open>One remote mutation per pass\<close>

text \<open>
  Claim C6. Whatever the collaborators answer, the calls one invocation of
  \<^verbatim>\<open>Reconcile\<close> adds to the trace hold at most one remote-mutating call (a create, an
  update or a delete of the alert), at most one status write and at most one write of
  the object (the write that carries the finalizer list).
\<close>

theorem Reconcile_at_most_one_mutation:
  assumes run: "Reconcile env r req s = (out, hao, s')"
  shows "\<exists>evs. trace s' = trace s @ evs \<and>
       length (filter isRemoteMutation evs) \<le> 1 \<and>
       length (filter isStatusWrite evs) \<le> 1 \<and>
       length (filter isObjectWrite evs) \<le> 1"
proof (cases "r_Namespace r \<noteq> '''' \<and> r_Namespace r \<noteq> req_Namespace req")
  case True
  with run have "s' = s" by (simp add: Reconcile_def)
  then show ?thesis by simp
next
  case ns: False
  obtain ha gerr s1 where get: "Get env req s = ((ha, gerr), s1)"
    by (metis surj_pair)
  then have t1: "trace s1 = trace s @ [EvGet]"
    by (auto simp: Get_def call_def split: prod.splits)
  show ?thesis
  proof (cases gerr)
    case (Some e)
    with run ns get have "s' = s1" by (auto simp: Reconcile_def split: if_splits)
    with t1 show ?thesis by simp
  next
    case None
    obtain res s2 where nc: "NewCluster env ha s1 = (res, s2)"
      by (metis surj_pair)
    then have t2: "trace s2 = trace s @ [EvGet, EvNewCluster]"
      using t1 by (auto simp: NewCluster_def call_def split: prod.splits)
    show ?thesis
    proof (cases "usableConfig res")
      case noconf: None
      obtain serr ha1 s3 where st: "setState env HumioAlertStateConfigError ha s2 = (serr, ha1, s3)"
        by (metis prod_cases3)
      with run ns get None nc noconf have "s' = s3"
        by (auto simp: Reconcile_def split: option.splits)
      moreover from setState_effect [OF st]
      have "trace s3 = trace s2 \<or> trace s3 = trace s2 @ [EvStatusUpdate ha1]"
        by (simp split: if_splits)
      ultimately show ?thesis using t2 by auto
    next
      case (Some config)
      obtain out1 ha1 s3 where pass: "reconcileHumioAlert env config ha req s2 = (out1, ha1, s3)"
        by (metis prod_cases3)
      obtain ha2 s4 where ref: "statusRefresh env config req ha1 s3 = (ha2, s4)"
        by (metis surj_pair)
      from run ns get None nc Some pass ref have "s' = s4"
        by (simp add: Reconcile_def)
      moreover from reconcileHumioAlert_events [OF pass] obtain evs1 where
        e1: "trace s3 = trace s2 @ evs1" "length (filter isRemoteMutation evs1) \<le> 1"
            "filter isStatusWrite evs1 = []" "length (filter isObjectWrite evs1) \<le> 1"
        by blast
      moreover from statusRefresh_events [OF ref] obtain evs2 where
        e2: "trace s4 = trace s3 @ evs2" "filter isRemoteMutation evs2 = []"
            "length (filter isStatusWrite evs2) \<le> 1" "filter isObjectWrite evs2 = []"
        by blast
      ultimately have "trace s' = trace s @ ([EvGet, EvNewCluster] @ evs1 @ evs2)"
        using t2 by simp
      moreover have "length (filter isRemoteMutation ([EvGet, EvNewCluster] @ evs1 @ evs2)) \<le> 1"
        using e1 e2 by simp
      moreover have "length (filter isStatusWrite ([EvGet, EvNewCluster] @ evs1 @ evs2)) \<le> 1"
        using e1 e2 by simp
      moreover have "length (filter isObjectWrite ([EvGet, EvNewCluster] @ evs1 @ evs2)) \<le> 1"
        using e1 e2 by simp
      ultimately show ?thesis by blast
    qed
  qed
qed

text \<open>
  The bound is reached: a drifted remote alert is updated once, and a new object gets
  its finalizer written once and its status once.
\<close>

lemma Reconcile_drifted_run:
  "Reconcile (env_sim ha_live) r0 req0 s_drifted =
     (Returned Result0 None, Some ha_live,
      \<lparr>world = Some (alert_desired\<lparr>ID := ''id-1''\<rparr>),
       trace = [EvGet, EvNewCluster, EvGetAlert, EvGetActionIDsMapForAlerts, EvUpdateAlert, EvGetAlert]\<rparr>)"
  by (simp add: controller_defs call_defs scenario_defs humioFinalizer_def)

theorem Reconcile_at_most_one_mutation_witness:
  "trace (snd (snd (Reconcile (env_sim ha_live) r0 req0 s_drifted))) =
     [EvGet, EvNewCluster, EvGetAlert, EvGetActionIDsMapForAlerts, EvUpdateAlert, EvGetAlert] \<and>
   (\<exists>evs. trace (snd (snd (Reconcile (env_sim ha_live) r0 req0 s_drifted))) = trace s_drifted @ evs \<and>
       length (filter isRemoteMutation evs) \<le> 1 \<and>
       length (filter isStatusWrite evs) \<le> 1 \<and>
       length (filter isObjectWrite evs) \<le> 1)"
proof -
  have run: "Reconcile (env_sim ha_live) r0 req0 s_drifted =
      (fst (Reconcile (env_sim ha_live) r0 req0 s_drifted),
       fst (snd (Reconcile (env_sim ha_live) r0 req0 s_drifted)),
       snd (snd (Reconcile (env_sim ha_live) r0 req0 s_drifted)))"
    by simp
  from Reconcile_at_most_one_mutation [OF run] show ?thesis
    by (simp add: Reconcile_drifted_run)
qed

subsection \<open>The deletion branch\<close>

text \<open>
  Claim C2. An object with a deletion marker and the controller's token: the pass
  (\<^verbatim>\<open>reconcileHumioAlert\<close>) calls the remote delete first. When that call fails the
  pass returns its error, wrapped, and the object still has the token; nothing was
  written. When it succeeds the token is removed from the list, the object without
  the token is written to the store, and these two calls are all the pass does; the
  pass returns what the store write returned (nil on success).
\<close>

theorem reconcileHumioAlert_delete_before_unfinalize:
  assumes del: "DeletionTimestamp ha \<noteq> None"
    and fin: "ContainsElement (Finalizers ha) humioFinalizer"
    and run: "reconcileHumioAlert env config ha req s = (out, ha', s')"
    and rd: "humio_DeleteAlert env config req ha (world s) = (derr, w1)"
  shows "(\<forall>e. derr = Some e \<longrightarrow>
            out = Returned Result0 (Some (logErrorAndReturn e ''Delete alert returned error'')) \<and>
            ha' = ha \<and> ContainsElement (Finalizers ha') humioFinalizer \<and>
            trace s' = trace s @ [EvDeleteAlert] \<and> world s' = w1) \<and>
         (derr = None \<longrightarrow>
            ha' = ha\<lparr>Finalizers := RemoveElement (Finalizers ha) humioFinalizer\<rparr> \<and>
            \<not> ContainsElement (Finalizers ha') humioFinalizer \<and>
            trace s' = trace s @ [EvDeleteAlert, EvUpdate ha'] \<and>
            out = Returned Result0 (fst (k8s_Update env ha' w1)) \<and>
            world s' = snd (k8s_Update env ha' w1))"
  using assms
  by (auto simp: reconcileHumioAlert_def call_defs Let_def ContainsElement_RemoveElement
      split: prod.splits option.splits)

theorem reconcileHumioAlert_delete_before_unfinalize_witness:
  "DeletionTimestamp ha_deleting \<noteq> None \<and>
   ContainsElement (Finalizers ha_deleting) humioFinalizer \<and>
   humio_DeleteAlert (env_delete_fails ha_deleting) cfg0 req0 ha_deleting (world s_present) =
     (Some (ErrorString ''connection refused''), Some alert_remote) \<and>
   reconcileHumioAlert (env_delete_fails ha_deleting) cfg0 ha_deleting req0 s_present =
     (Returned Result0 (Some (Wrapped ''Delete alert returned error'' (ErrorString ''connection refused''))),
      ha_deleting, \<lparr>world = Some alert_remote, trace = [EvDeleteAlert]\<rparr>) \<and>
   humio_DeleteAlert (env_sim ha_deleting) cfg0 req0 ha_deleting (world s_present) = (None, None) \<and>
   reconcileHumioAlert (env_sim ha_deleting) cfg0 ha_deleting req0 s_present =
     (Returned Result0 None, ha_deleting\<lparr>Finalizers := [''other/finalizer'']\<rparr>,
      \<lparr>world = None,
       trace = [EvDeleteAlert, EvUpdate (ha_deleting\<lparr>Finalizers := [''other/finalizer'']\<rparr>)]\<rparr>) \<and>
   \<not> ContainsElement [''other/finalizer''] humioFinalizer"
proof -
  let ?H = "ha_deleting\<lparr>Finalizers := [''other/finalizer'']\<rparr>"
  have del: "DeletionTimestamp ha_deleting \<noteq> None"
    by (simp add: scenario_defs)
  have fin: "ContainsElement (Finalizers ha_deleting) humioFinalizer"
    by (simp add: scenario_defs ContainsElement_def)
  have rd1: "humio_DeleteAlert (env_delete_fails ha_deleting) cfg0 req0 ha_deleting (world s_present) =
      (Some (ErrorString ''connection refused''), Some alert_remote)"
    by (simp add: scenario_defs)
  have run1: "reconcileHumioAlert (env_delete_fails ha_deleting) cfg0 ha_deleting req0 s_present =
      (Returned Result0 (Some (Wrapped ''Delete alert returned error'' (ErrorString ''connection refused''))),
       ha_deleting, \<lparr>world = Some alert_remote, trace = [EvDeleteAlert]\<rparr>)"
    by (simp add: controller_defs call_defs scenario_defs humioFinalizer_def)
  have rd2: "humio_DeleteAlert (env_sim ha_deleting) cfg0 req0 ha_deleting (world s_present) = (None, None)"
    by (simp add: scenario_defs)
  have run2: "reconcileHumioAlert (env_sim ha_deleting) cfg0 ha_deleting req0 s_present =
      (Returned Result0 None, ?H, \<lparr>world = None, trace = [EvDeleteAlert, EvUpdate ?H]\<rparr>)"
    by (simp add: controller_defs call_defs scenario_defs humioFinalizer_def)
  from reconcileHumioAlert_delete_before_unfinalize [OF del fin run2 rd2]
  have "\<not> ContainsElement (Finalizers ?H) humioFinalizer"
    by blast
  then have gone: "\<not> ContainsElement [''other/finalizer''] humioFinalizer"
    by simp
  from reconcileHumioAlert_delete_before_unfinalize [OF del fin run1 rd1] del fin rd1 run1 rd2 run2 gone
  show ?thesis by simp
qed

subsection \<open>The finalizer branch\<close>

lemma reconcileHumioAlert_create_aux:
  "case reconcileHumioAlert env config ha req s of (out, ha', s') \<Rightarrow>
     EvAddAlert \<in> set (drop (length (trace s)) (trace s')) \<longrightarrow>
       DeletionTimestamp ha = None \<and> ContainsElement (Finalizers ha) humioFinalizer"
  by (simp add: reconcileHumioAlert_def call_defs Let_def case_prod_beta split: option.split)

text \<open>
  Claim C3. An object without a deletion marker and without the token: the pass appends
  the token, writes the object to the store, and that write is the only call of the pass
  (so there is no remote create, update or delete). It returns the immediate requeue
  when the write succeeded, and the error of the write otherwise. A remote create is
  only ever issued by a pass that was handed an object which already carried the token.
\<close>

theorem reconcileHumioAlert_finalizer_before_mutation:
  assumes del: "DeletionTimestamp ha = None"
    and fin: "\<not> ContainsElement (Finalizers ha) humioFinalizer"
    and run: "reconcileHumioAlert env config ha req s = (out, ha', s')"
  shows "ha' = ha\<lparr>Finalizers := Finalizers ha @ [humioFinalizer]\<rparr> \<and>
         ContainsElement (Finalizers ha') humioFinalizer \<and>
         trace s' = trace s @ [EvUpdate ha'] \<and>
         world s' = snd (k8s_Update env ha' (world s)) \<and>
         (fst (k8s_Update env ha' (world s)) = None \<longrightarrow>
            out = Returned (Result0\<lparr>Requeue := True\<rparr>) None) \<and>
         (\<forall>e. fst (k8s_Update env ha' (world s)) = Some e \<longrightarrow> out = Returned Result0 (Some e)) \<and>
         (\<forall>hb sb. EvAddAlert \<in> set (drop (length (trace sb))
               (trace (snd (snd (reconcileHumioAlert env config hb req sb))))) \<longrightarrow>
            DeletionTimestamp hb = None \<and> ContainsElement (Finalizers hb) humioFinalizer)"
proof -
  have later: "EvAddAlert \<in> set (drop (length (trace sb))
               (trace (snd (snd (reconcileHumioAlert env config hb req sb))))) \<longrightarrow>
            DeletionTimestamp hb = None \<and> ContainsElement (Finalizers hb) humioFinalizer" for hb sb
    using reconcileHumioAlert_create_aux [where env=env and config=config and ha=hb and req=req and s=sb]
    by (simp add: case_prod_beta)
  from assms have "ha' = ha\<lparr>Finalizers := Finalizers ha @ [humioFinalizer]\<rparr> \<and>
         ContainsElement (Finalizers ha') humioFinalizer \<and>
         trace s' = trace s @ [EvUpdate ha'] \<and>
         world s' = snd (k8s_Update env ha' (world s)) \<and>
         (fst (k8s_Update env ha' (world s)) = None \<longrightarrow>
            out = Returned (Result0\<lparr>Requeue := True\<rparr>) None) \<and>
         (\<forall>e. fst (k8s_Update env ha' (world s)) = Some e \<longrightarrow> out = Returned Result0 (Some e))"
    by (auto simp: reconcileHumioAlert_def call_defs Let_def ContainsElement_append
        split: prod.splits option.splits)
  with later show ?thesis by blast
qed

theorem reconcileHumioAlert_finalizer_before_mutation_witness:
  "DeletionTimestamp ha_new = None \<and>
   \<not> ContainsElement (Finalizers ha_new) humioFinalizer \<and>
   reconcileHumioAlert (env_sim ha_new) cfg0 ha_new req0 s_absent =
     (Returned \<lparr>Requeue = True, RequeueAfter = 0\<rparr> None, ha_new\<lparr>Finalizers := [humioFinalizer]\<rparr>,
      \<lparr>world = None, trace = [EvUpdate (ha_new\<lparr>Finalizers := [humioFinalizer]\<rparr>)]\<rparr>) \<and>
   ContainsElement [humioFinalizer] humioFinalizer"
proof -
  let ?H = "ha_new\<lparr>Finalizers := [humioFinalizer]\<rparr>"
  have del: "DeletionTimestamp ha_new = None"
    by (simp add: scenario_defs)
  have fin: "\<not> ContainsElement (Finalizers ha_new) humioFinalizer"
    by (simp add: scenario_defs ContainsElement_def)
  have run: "reconcileHumioAlert (env_sim ha_new) cfg0 ha_new req0 s_absent =
     (Returned \<lparr>Requeue = True, RequeueAfter = 0\<rparr> None, ?H, \<lparr>world = None, trace = [EvUpdate ?H]\<rparr>)"
    by (simp add: controller_defs call_defs scenario_defs)
  from reconcileHumioAlert_finalizer_before_mutation [OF del fin run]
  have "ContainsElement (Finalizers ?H) humioFinalizer"
    by blast
  with del fin run show ?thesis by simp
qed

subsection \<open>The create branch\<close>

text \<open>
  Claim C5. An object without a deletion marker that carries the token, and a fetch whose
  error is classified as not found: the pass calls the client to create the alert. When
  the creation fails the pass returns that error, wrapped. When it succeeds the pass runs
  the annotation fix-up and returns the immediate requeue (or what the fix-up returned,
  when the fix-up fails). In no case does the pass resolve action identifiers or call
  the update: the trace ends with the creation or the fix-up.
\<close>

theorem reconcileHumioAlert_create_on_not_found:
  assumes del: "DeletionTimestamp ha = None"
    and fin: "ContainsElement (Finalizers ha) humioFinalizer"
    and fetch: "humio_GetAlert env config req ha (world s) = ((curAlert, err), w1)"
    and nf: "errorsAsEntityNotFound err"
    and add: "humio_AddAlert env config req ha w1 = ((addedAlert, aerr), w2)"
    and run: "reconcileHumioAlert env config ha req s = (out, ha', s')"
  shows "ha' = ha \<and>
         (\<forall>e. aerr = Some e \<longrightarrow>
            out = Returned Result0 (Some (logErrorAndReturn e ''could not create alert'')) \<and>
            trace s' = trace s @ [EvGetAlert, EvAddAlert] \<and> world s' = w2) \<and>
         (aerr = None \<longrightarrow>
            trace s' = trace s @ [EvGetAlert, EvAddAlert, EvReconcileHumioAlertAnnotations] \<and>
            world s' = snd (fixup_Annotations env addedAlert ha req w2) \<and>
            (case fst (fixup_Annotations env addedAlert ha req w2) of
               (result, None) \<Rightarrow> out = Returned (Result0\<lparr>Requeue := True\<rparr>) None
             | (result, Some e) \<Rightarrow> out = Returned result (Some e)))"
  using assms
  by (auto simp: reconcileHumioAlert_def call_defs Let_def
      split: prod.splits option.splits)

theorem reconcileHumioAlert_create_on_not_found_witness:
  "DeletionTimestamp ha_live = None \<and>
   ContainsElement (Finalizers ha_live) humioFinalizer \<and>
   humio_GetAlert (env_sim ha_live) cfg0 req0 ha_live (world s_absent) = ((None, Some EntityNotFound), None) \<and>
   errorsAsEntityNotFound (Some EntityNotFound) \<and>
   humio_AddAlert (env_sim ha_live) cfg0 req0 ha_live None =
     ((Some alert_desired, None), Some (alert_desired\<lparr>ID := ''id-1''\<rparr>)) \<and>
   reconcileHumioAlert (env_sim ha_live) cfg0 ha_live req0 s_absent =
     (Returned \<lparr>Requeue = True, RequeueAfter = 0\<rparr> None, ha_live,
      \<lparr>world = Some (alert_desired\<lparr>ID := ''id-1''\<rparr>),
       trace = [EvGetAlert, EvAddAlert, EvReconcileHumioAlertAnnotations]\<rparr>) \<and>
   humio_AddAlert (env_add_fails ha_live) cfg0 req0 ha_live None =
     ((None, Some (ErrorString ''connection refused'')), None) \<and>
   reconcileHumioAlert (env_add_fails ha_live) cfg0 ha_live req0 s_absent =
     (Returned Result0 (Some (Wrapped ''could not create alert'' (ErrorString ''connection refused''))),
      ha_live, \<lparr>world = None, trace = [EvGetAlert, EvAddAlert]\<rparr>)"
proof -
  have del: "DeletionTimestamp ha_live = None"
    by (simp add: scenario_defs)
  have fin: "ContainsElement (Finalizers ha_live) humioFinalizer"
    by (simp add: scenario_defs ContainsElement_def)
  have fetch: "humio_GetAlert (env_sim ha_live) cfg0 req0 ha_live (world s_absent) =
      ((None, Some EntityNotFound), None)"
    by (simp add: scenario_defs)
  have fetch': "humio_GetAlert (env_add_fails ha_live) cfg0 req0 ha_live (world s_absent) =
      ((None, Some EntityNotFound), None)"
    by (simp add: scenario_defs)
  have nf: "errorsAsEntityNotFound (Some EntityNotFound)"
    by (simp add: errorsAsEntityNotFound_def)
  have add: "humio_AddAlert (env_sim ha_live) cfg0 req0 ha_live None =
      ((Some alert_desired, None), Some (alert_desired\<lparr>ID := ''id-1''\<rparr>))"
    by (simp add: scenario_defs)
  have add': "humio_AddAlert (env_add_fails ha_live) cfg0 req0 ha_live None =
      ((None, Some (ErrorString ''connection refused'')), None)"
    by (simp add: scenario_defs)
  obtain out ha' s' where run:
    "reconcileHumioAlert (env_sim ha_live) cfg0 ha_live req0 s_absent = (out, ha', s')"
    by (metis prod_cases3)
  obtain out2 ha2 s2 where run2:
    "reconcileHumioAlert (env_add_fails ha_live) cfg0 ha_live req0 s_absent = (out2, ha2, s2)"
    by (metis prod_cases3)
  from reconcileHumioAlert_create_on_not_found [OF del fin fetch nf add run]
  have r1: "ha' = ha_live" "out = Returned \<lparr>Requeue = True, RequeueAfter = 0\<rparr> None"
    "trace s' = [EvGetAlert, EvAddAlert, EvReconcileHumioAlertAnnotations]"
    "world s' = Some (alert_desired\<lparr>ID := ''id-1''\<rparr>)"
    by (simp_all add: scenario_defs Result0_def)
  from reconcileHumioAlert_create_on_not_found [OF del fin fetch' nf add' run2]
  have r2: "ha2 = ha_live"
    "out2 = Returned Result0 (Some (Wrapped ''could not create alert'' (ErrorString ''connection refused'')))"
    "trace s2 = [EvGetAlert, EvAddAlert]" "world s2 = None"
    by (simp_all add: scenario_defs logErrorAndReturn_def)
  have "s' = \<lparr>world = Some (alert_desired\<lparr>ID := ''id-1''\<rparr>),
       trace = [EvGetAlert, EvAddAlert, EvReconcileHumioAlertAnnotations]\<rparr>"
    using r1 by (cases s') simp
  moreover have "s2 = \<lparr>world = None, trace = [EvGetAlert, EvAddAlert]\<rparr>"
    using r2 by (cases s2) simp
  ultimately show ?thesis
    using del fin fetch nf add add' run run2 r1 r2 by simp
qed

subsection \<open>Drift detection\<close>

lemma reconcileHumioAlert_compare:
  assumes del: "DeletionTimestamp ha = None"
    and fin: "ContainsElement (Finalizers ha) humioFinalizer"
    and fetch: "humio_GetAlert env config req ha (world s) = ((Some cur, None), w1)"
    and ids: "humio_GetActionIDsMapForAlerts env config req ha w1 = ((actionIdMap, None), w2)"
    and tr: "humio_AlertTransform env ha actionIdMap = (Some expected, None)"
  shows "reconcileHumioAlert env config ha req s =
     (if sanitizeAlert cur \<noteq> expected then
        (case humio_UpdateAlert env config req ha w2 of
           ((alert, Some e), w3) \<Rightarrow>
             (Returned Result0 (Some (logErrorAndReturn e ''could not update alert'')), ha,
              \<lparr>world = w3, trace = trace s @ [EvGetAlert, EvGetActionIDsMapForAlerts, EvUpdateAlert]\<rparr>)
         | ((alert, None), w3) \<Rightarrow>
             (Returned Result0 None, ha,
              \<lparr>world = w3, trace = trace s @ [EvGetAlert, EvGetActionIDsMapForAlerts, EvUpdateAlert]\<rparr>))
      else (Returned Result0 None, ha,
            \<lparr>world = w2, trace = trace s @ [EvGetAlert, EvGetActionIDsMapForAlerts]\<rparr>))"
  using assms
  by (simp add: reconcileHumioAlert_def call_defs Let_def errorsAsEntityNotFound_def
      split: prod.splits option.splits)

lemma sanitizeAlert_eq_iff:
  "sanitizeAlert cur = expected \<longleftrightarrow>
     Alert.more cur = Alert.more expected \<and>
     TimeOfLastTrigger expected = 0 \<and> ID expected = '''' \<and> LastError expected = ''''"
  by (cases cur, cases expected) (auto simp: sanitizeAlert_def)

text \<open>
  Claim C4. An object past the finalizer protocol whose fetched alert, once sanitized,
  equals the Transform of the object under the resolved action identifiers: the pass
  makes the two reads and nothing else (no create, update or delete, no write to the
  store), returns the terminal no-op and leaves the object, its status included, as it
  was. \<^verbatim>\<open>setState\<close> with the state the object already has writes nothing, so the
  deferred refresh of an object already marked \<open>Exists\<close> whose alert is found adds its
  one read and no status write.
\<close>

theorem reconcileHumioAlert_idempotent:
  assumes del: "DeletionTimestamp ha = None"
    and fin: "ContainsElement (Finalizers ha) humioFinalizer"
    and fetch: "humio_GetAlert env config req ha (world s) = ((Some cur, None), w1)"
    and ids: "humio_GetActionIDsMapForAlerts env config req ha w1 = ((actionIdMap, None), w2)"
    and tr: "humio_AlertTransform env ha actionIdMap = (Some expected, None)"
    and eq: "sanitizeAlert cur = expected"
  shows "reconcileHumioAlert env config ha req s =
           (Returned Result0 None, ha,
            \<lparr>world = w2, trace = trace s @ [EvGetAlert, EvGetActionIDsMapForAlerts]\<rparr>) \<and>
         filter isRemoteMutation [EvGetAlert, EvGetActionIDsMapForAlerts :: 's Event] = [] \<and>
         setState env (State (ha_Status hx)) hx sx = (None, hx, sx) \<and>
         (State (ha_Status ha) = HumioAlertStateExists \<and>
          humio_GetAlert env config req ha w2 = ((Some cur2, None), w3) \<longrightarrow>
            statusRefresh env config req ha \<lparr>world = w2, trace = t\<rparr> =
              (ha, \<lparr>world = w3, trace = t @ [EvGetAlert]\<rparr>))"
proof -
  have pass: "reconcileHumioAlert env config ha req s =
           (Returned Result0 None, ha,
            \<lparr>world = w2, trace = trace s @ [EvGetAlert, EvGetActionIDsMapForAlerts]\<rparr>)"
    using reconcileHumioAlert_compare [OF del fin fetch ids tr] eq by simp
  have skip: "setState env (State (ha_Status hx)) hx sx = (None, hx, sx)"
    by (simp add: setState_def)
  have refresh: "State (ha_Status ha) = HumioAlertStateExists \<and>
          humio_GetAlert env config req ha w2 = ((Some cur2, None), w3) \<longrightarrow>
            statusRefresh env config req ha \<lparr>world = w2, trace = t\<rparr> =
              (ha, \<lparr>world = w3, trace = t @ [EvGetAlert]\<rparr>)"
    by (simp add: statusRefresh_def setState_def call_defs errorsAsEntityNotFound_def)
  from pass skip refresh show ?thesis by simp
qed

theorem reconcileHumioAlert_idempotent_witness:
  "DeletionTimestamp ha_live = None \<and>
   ContainsElement (Finalizers ha_live) humioFinalizer \<and>
   humio_GetAlert (env_sim ha_live) cfg0 req0 ha_live (world s_present) =
     ((Some alert_remote, None), Some alert_remote) \<and>
   humio_GetActionIDsMapForAlerts (env_sim ha_live) cfg0 req0 ha_live (Some alert_remote) =
     (([''slack-ops'' \<mapsto> ''action-1''], None), Some alert_remote) \<and>
   humio_AlertTransform (env_sim ha_live) ha_live [''slack-ops'' \<mapsto> ''action-1''] =
     (Some alert_desired, None) \<and>
   sanitizeAlert alert_remote = alert_desired \<and>
   State (ha_Status ha_live) = HumioAlertStateExists \<and>
   reconcileHumioAlert (env_sim ha_live) cfg0 ha_live req0 s_present =
     (Returned Result0 None, ha_live,
      \<lparr>world = Some alert_remote, trace = [EvGetAlert, EvGetActionIDsMapForAlerts]\<rparr>) \<and>
   statusRefresh (env_sim ha_live) cfg0 req0 ha_live
       \<lparr>world = Some alert_remote, trace = [EvGetAlert, EvGetActionIDsMapForAlerts]\<rparr> =
     (ha_live, \<lparr>world = Some alert_remote,
        trace = [EvGetAlert, EvGetActionIDsMapForAlerts, EvGetAlert]\<rparr>)"
proof -
  have del: "DeletionTimestamp ha_live = None"
    by (simp add: scenario_defs)
  have fin: "ContainsElement (Finalizers ha_live) humioFinalizer"
    by (simp add: scenario_defs ContainsElement_def)
  have fetch: "humio_GetAlert (env_sim ha_live) cfg0 req0 ha_live (world s_present) =
      ((Some alert_remote, None), Some alert_remote)"
    by (simp add: scenario_defs)
  have fetch2: "humio_GetAlert (env_sim ha_live) cfg0 req0 ha_live (Some alert_remote) =
      ((Some alert_remote, None), Some alert_remote)"
    by (simp add: scenario_defs)
  have ids: "humio_GetActionIDsMapForAlerts (env_sim ha_live) cfg0 req0 ha_live (Some alert_remote) =
      (([''slack-ops'' \<mapsto> ''action-1''], None), Some alert_remote)"
    by (simp add: scenario_defs)
  have tr: "humio_AlertTransform (env_sim ha_live) ha_live [''slack-ops'' \<mapsto> ''action-1''] =
      (Some alert_desired, None)"
    by (simp add: scenario_defs)
  have eq: "sanitizeAlert alert_remote = alert_desired"
    by (simp add: scenario_defs sanitizeAlert_def)
  have ex: "State (ha_Status ha_live) = HumioAlertStateExists"
    by (simp add: scenario_defs)
  have tr0: "trace s_present = []"
    by (simp add: scenario_defs)
  from reconcileHumioAlert_idempotent [OF del fin fetch ids tr eq,
      where ?cur2.0=alert_remote and ?w3.0="Some alert_remote"
        and t="[EvGetAlert, EvGetActionIDsMapForAlerts]"]
    del fin fetch fetch2 ids tr eq ex tr0
  show ?thesis by simp
qed

subsection \<open>Sanitization\<close>

text \<open>
  Claim C7, as the code has it. \<^verbatim>\<open>sanitizeAlert\<close> clears exactly the last-trigger
  timestamp, the identifier and the last-error text of the fetched alert and leaves
  every other field. It is applied to the fetched alert only. So when the fetched alert
  and the Transform agree on every other field, the pass issues no update provided the
  Transform's own result has these three fields cleared.
\<close>

theorem reconcileHumioAlert_sanitization_exclusion:
  assumes del: "DeletionTimestamp ha = None"
    and fin: "ContainsElement (Finalizers ha) humioFinalizer"
    and fetch: "humio_GetAlert env config req ha (world s) = ((Some cur, None), w1)"
    and ids: "humio_GetActionIDsMapForAlerts env config req ha w1 = ((actionIdMap, None), w2)"
    and tr: "humio_AlertTransform env ha actionIdMap = (Some expected, None)"
    and same: "Alert.more cur = Alert.more expected"
    and cleared: "TimeOfLastTrigger expected = 0 \<and> ID expected = '''' \<and> LastError expected = ''''"
  shows "sanitizeAlert cur = cur\<lparr>TimeOfLastTrigger := 0, ID := '''', LastError := ''''\<rparr> \<and>
         Alert.more (sanitizeAlert cur) = Alert.more cur \<and>
         reconcileHumioAlert env config ha req s =
           (Returned Result0 None, ha,
            \<lparr>world = w2, trace = trace s @ [EvGetAlert, EvGetActionIDsMapForAlerts]\<rparr>) \<and>
         EvUpdateAlert \<notin> set [EvGetAlert, EvGetActionIDsMapForAlerts :: 's Event]"
proof -
  have "sanitizeAlert cur = expected"
    using same cleared by (simp add: sanitizeAlert_eq_iff)
  with reconcileHumioAlert_compare [OF del fin fetch ids tr]
  have "reconcileHumioAlert env config ha req s =
           (Returned Result0 None, ha,
            \<lparr>world = w2, trace = trace s @ [EvGetAlert, EvGetActionIDsMapForAlerts]\<rparr>)"
    by simp
  then show ?thesis by (simp add: sanitizeAlert_def)
qed

theorem reconcileHumioAlert_sanitization_exclusion_witness:
  "DeletionTimestamp ha_live = None \<and>
   ContainsElement (Finalizers ha_live) humioFinalizer \<and>
   humio_GetAlert (env_sim ha_live) cfg0 req0 ha_live (world s_present) =
     ((Some alert_remote, None), Some alert_remote) \<and>
   humio_GetActionIDsMapForAlerts (env_sim ha_live) cfg0 req0 ha_live (Some alert_remote) =
     (([''slack-ops'' \<mapsto> ''action-1''], None), Some alert_remote) \<and>
   humio_AlertTransform (env_sim ha_live) ha_live [''slack-ops'' \<mapsto> ''action-1''] =
     (Some alert_desired, None) \<and>
   Alert.more alert_remote = Alert.more alert_desired \<and>
   TimeOfLastTrigger alert_desired = 0 \<and> ID alert_desired = '''' \<and> LastError alert_desired = '''' \<and>
   alert_remote \<noteq> alert_desired \<and>
   reconcileHumioAlert (env_sim ha_live) cfg0 ha_live req0 s_present =
     (Returned Result0 None, ha_live,
      \<lparr>world = Some alert_remote, trace = [EvGetAlert, EvGetActionIDsMapForAlerts]\<rparr>)"
proof -
  have del: "DeletionTimestamp ha_live = None"
    by (simp add: scenario_defs)
  have fin: "ContainsElement (Finalizers ha_live) humioFinalizer"
    by (simp add: scenario_defs ContainsElement_def)
  have fetch: "humio_GetAlert (env_sim ha_live) cfg0 req0 ha_live (world s_present) =
      ((Some alert_remote, None), Some alert_remote)"
    by (simp add: scenario_defs)
  have ids: "humio_GetActionIDsMapForAlerts (env_sim ha_live) cfg0 req0 ha_live (Some alert_remote) =
      (([''slack-ops'' \<mapsto> ''action-1''], None), Some alert_remote)"
    by (simp add: scenario_defs)
  have tr: "humio_AlertTransform (env_sim ha_live) ha_live [''slack-ops'' \<mapsto> ''action-1''] =
      (Some alert_desired, None)"
    by (simp add: scenario_defs)
  have same: "Alert.more alert_remote = Alert.more alert_desired"
    by (simp add: scenario_defs)
  have cleared: "TimeOfLastTrigger alert_desired = 0 \<and> ID alert_desired = '''' \<and>
      LastError alert_desired = ''''"
    by (simp add: scenario_defs)
  have differ: "alert_remote \<noteq> alert_desired"
    by (simp add: scenario_defs)
  have tr0: "trace s_present = []"
    by (simp add: scenario_defs)
  from reconcileHumioAlert_sanitization_exclusion [OF del fin fetch ids tr same cleared]
    del fin fetch ids tr same cleared differ tr0
  show ?thesis by simp
qed

text \<open>
  The claim without the proviso fails: a fetched alert that differs from the Transform's
  result in the timestamp and the last-error text only is updated all the same, because
  the Transform's result carries an identifier and the sanitized alert does not.
\<close>

theorem reconcileHumioAlert_sanitization_counterexample:
  "DeletionTimestamp ha_live = None \<and>
   ContainsElement (Finalizers ha_live) humioFinalizer \<and>
   humio_GetAlert (env_transform_id ha_live) cfg0 req0 ha_live (world s_present) =
     ((Some alert_remote, None), Some alert_remote) \<and>
   humio_AlertTransform (env_transform_id ha_live) ha_live [''slack-ops'' \<mapsto> ''action-1''] =
     (Some alert_annotated, None) \<and>
   Alert.more alert_remote = Alert.more alert_annotated \<and>
   ID alert_remote = ID alert_annotated \<and>
   reconcileHumioAlert (env_transform_id ha_live) cfg0 ha_live req0 s_present =
     (Returned Result0 None, ha_live,
      \<lparr>world = Some (alert_desired\<lparr>ID := ''id-1''\<rparr>),
       trace = [EvGetAlert, EvGetActionIDsMapForAlerts, EvUpdateAlert]\<rparr>)"
  by (simp add: controller_defs call_defs scenario_defs humioFinalizer_def)

subsection \<open>Reconcile around the pass\<close>

lemma Reconcile_with_config:
  assumes ns: "r_Namespace r = '''' \<or> r_Namespace r = req_Namespace req"
    and get: "Get env req s = ((ha, None), s1)"
    and nc: "NewCluster env ha s1 = (res, s2)"
    and cfg: "usableConfig res = Some config"
    and pass: "reconcileHumioAlert env config ha req s2 = (out, ha1, s3)"
    and ref: "statusRefresh env config req ha1 s3 = (ha2, s4)"
  shows "Reconcile env r req s = (out, Some ha2, s4)"
  using assms by (auto simp: Reconcile_def)

lemma Get_trace: "Get env req s = (a, s1) \<Longrightarrow> trace s1 = trace s @ [EvGet]"
  by (auto simp: Get_def call_def split: prod.splits)

lemma NewCluster_trace: "NewCluster env ha s1 = (a, s2) \<Longrightarrow> trace s2 = trace s1 @ [EvNewCluster]"
  by (auto simp: NewCluster_def call_def split: prod.splits)

text \<open>
  Claim C9. Once the configuration is resolved, \<^verbatim>\<open>Reconcile\<close> returns exactly the
  outcome of the pass, whatever the refresh does and also when the pass panics. The
  refresh fetches the alert once more and sets the state of the object to \<open>NotFound\<close>
  when the error of the fetch is classified as not found, to \<open>ConfigError\<close> when the
  fetch failed otherwise or returned no alert, and to \<open>Exists\<close> otherwise. The state is
  written to the store only when it changed, and the result of that write is dropped.
\<close>

theorem Reconcile_status_refresh:
  assumes ns: "r_Namespace r = '''' \<or> r_Namespace r = req_Namespace req"
    and get: "Get env req s = ((ha, None), s1)"
    and nc: "NewCluster env ha s1 = (res, s2)"
    and cfg: "usableConfig res = Some config"
    and pass: "reconcileHumioAlert env config ha req s2 = (out, ha1, s3)"
    and fetch: "humio_GetAlert env config req ha1 (world s3) = ((curAlert, err), w4)"
  shows "\<exists>ha2 s4. Reconcile env r req s = (out, Some ha2, s4) \<and>
           ha2 = ha1\<lparr>ha_Status := (ha_Status ha1)\<lparr>State :=
              (if errorsAsEntityNotFound err then HumioAlertStateNotFound
               else if err \<noteq> None \<or> curAlert = None then HumioAlertStateConfigError
               else HumioAlertStateExists)\<rparr>\<rparr> \<and>
           (if State (ha_Status ha1) = State (ha_Status ha2)
            then trace s4 = trace s3 @ [EvGetAlert] \<and> world s4 = w4
            else trace s4 = trace s3 @ [EvGetAlert, EvStatusUpdate ha2] \<and>
                 world s4 = snd (k8s_Status_Update env ha2 w4))"
proof -
  obtain ha2 s4 where ref: "statusRefresh env config req ha1 s3 = (ha2, s4)"
    by (metis surj_pair)
  have "Reconcile env r req s = (out, Some ha2, s4)"
    using Reconcile_with_config [OF ns get nc cfg pass ref] .
  with statusRefresh_effect [OF ref fetch] show ?thesis
    by blast
qed

theorem Reconcile_status_refresh_witness:
  "(r_Namespace r0 = '''' \<or> r_Namespace r0 = req_Namespace req0) \<and>
   Get (env_add_fails ha_live) req0 s_absent = ((ha_live, None), \<lparr>world = None, trace = [EvGet]\<rparr>) \<and>
   NewCluster (env_add_fails ha_live) ha_live \<lparr>world = None, trace = [EvGet]\<rparr> =
     ((Some \<lparr>cluster_Config = Some cfg0\<rparr>, None), \<lparr>world = None, trace = [EvGet, EvNewCluster]\<rparr>) \<and>
   usableConfig (Some \<lparr>cluster_Config = Some cfg0\<rparr>, None) = Some cfg0 \<and>
   reconcileHumioAlert (env_add_fails ha_live) cfg0 ha_live req0 \<lparr>world = None, trace = [EvGet, EvNewCluster]\<rparr> =
     (Returned Result0 (Some (Wrapped ''could not create alert'' (ErrorString ''connection refused''))),
      ha_live, \<lparr>world = None, trace = [EvGet, EvNewCluster, EvGetAlert, EvAddAlert]\<rparr>) \<and>
   humio_GetAlert (env_add_fails ha_live) cfg0 req0 ha_live None = ((None, Some EntityNotFound), None) \<and>
   Reconcile (env_add_fails ha_live) r0 req0 s_absent =
     (Returned Result0 (Some (Wrapped ''could not create alert'' (ErrorString ''connection refused''))),
      Some (ha_live\<lparr>ha_Status := \<lparr>State = HumioAlertStateNotFound\<rparr>\<rparr>),
      \<lparr>world = None,
       trace = [EvGet, EvNewCluster, EvGetAlert, EvAddAlert, EvGetAlert,
                EvStatusUpdate (ha_live\<lparr>ha_Status := \<lparr>State = HumioAlertStateNotFound\<rparr>\<rparr>)]\<rparr>)"
proof -
  let ?E = "env_add_fails ha_live"
  have ns: "r_Namespace r0 = '''' \<or> r_Namespace r0 = req_Namespace req0"
    by (simp add: scenario_defs)
  have get: "Get ?E req0 s_absent = ((ha_live, None), \<lparr>world = None, trace = [EvGet]\<rparr>)"
    by (simp add: call_defs scenario_defs)
  have nc: "NewCluster ?E ha_live \<lparr>world = None, trace = [EvGet]\<rparr> =
      ((Some \<lparr>cluster_Config = Some cfg0\<rparr>, None), \<lparr>world = None, trace = [EvGet, EvNewCluster]\<rparr>)"
    by (simp add: call_defs scenario_defs)
  have cfg: "usableConfig (Some \<lparr>cluster_Config = Some cfg0\<rparr>, None) = Some cfg0"
    by (simp add: usableConfig_def)
  have pass: "reconcileHumioAlert ?E cfg0 ha_live req0 \<lparr>world = None, trace = [EvGet, EvNewCluster]\<rparr> =
      (Returned Result0 (Some (Wrapped ''could not create alert'' (ErrorString ''connection refused''))),
       ha_live, \<lparr>world = None, trace = [EvGet, EvNewCluster, EvGetAlert, EvAddAlert]\<rparr>)"
    by (simp add: controller_defs call_defs scenario_defs humioFinalizer_def)
  have fetch: "humio_GetAlert ?E cfg0 req0 ha_live
      (world \<lparr>world = None, trace = [EvGet, EvNewCluster, EvGetAlert, EvAddAlert :: unit Event]\<rparr>) =
      ((None, Some EntityNotFound), None)"
    by (simp add: scenario_defs)
  from Reconcile_status_refresh [OF ns get nc cfg pass fetch]
  obtain ha2 s4 where r: "Reconcile ?E r0 req0 s_absent =
       (Returned Result0 (Some (Wrapped ''could not create alert'' (ErrorString ''connection refused''))),
        Some ha2, s4)"
    and h: "ha2 = ha_live\<lparr>ha_Status := \<lparr>State = HumioAlertStateNotFound\<rparr>\<rparr>"
    and t: "trace s4 = [EvGet, EvNewCluster, EvGetAlert, EvAddAlert, EvGetAlert, EvStatusUpdate ha2]"
    and w: "world s4 = None"
    by (auto simp: errorsAsEntityNotFound_def scenario_defs HumioAlertStateNotFound_def
        HumioAlertStateExists_def split: if_splits)
  have "s4 = \<lparr>world = None,
       trace = [EvGet, EvNewCluster, EvGetAlert, EvAddAlert, EvGetAlert, EvStatusUpdate ha2]\<rparr>"
    using t w by (cases s4) simp
  with r h ns get nc cfg pass fetch show ?thesis by simp
qed

subsection \<open>An object already cleaned up\<close>

text \<open>
  Claim C8, as the code has it. An object with a deletion marker and without the token:
  \<^verbatim>\<open>reconcileHumioAlert\<close> makes no call at all and returns the terminal no-op, and
  \<^verbatim>\<open>Reconcile\<close> returns that no-op. The invocation of \<^verbatim>\<open>Reconcile\<close> as a whole makes
  one remote call, the read-only fetch of the deferred status refresh; it makes no
  remote-mutating call and writes no object, and writes the status at most once.
\<close>

theorem Reconcile_deleted_without_finalizer:
  assumes del: "DeletionTimestamp ha \<noteq> None"
    and fin: "\<not> ContainsElement (Finalizers ha) humioFinalizer"
    and ns: "r_Namespace r = '''' \<or> r_Namespace r = req_Namespace req"
    and get: "Get env req s = ((ha, None), s1)"
    and nc: "NewCluster env ha s1 = (res, s2)"
    and cfg: "usableConfig res = Some config"
  shows "reconcileHumioAlert env config ha req s2 = (Returned Result0 None, ha, s2) \<and>
         (\<exists>ha2 s4 evs. Reconcile env r req s = (Returned Result0 None, Some ha2, s4) \<and>
            trace s4 = trace s @ evs \<and>
            filter isRemoteCall evs = [EvGetAlert] \<and>
            filter isRemoteMutation evs = [] \<and>
            filter isObjectWrite evs = [] \<and>
            length (filter isStatusWrite evs) \<le> 1 \<and>
            Finalizers ha2 = Finalizers ha)"
proof -
  have pass: "reconcileHumioAlert env config ha req s2 = (Returned Result0 None, ha, s2)"
    using del fin by (simp add: reconcileHumioAlert_def)
  obtain ha2 s4 where ref: "statusRefresh env config req ha s2 = (ha2, s4)"
    by (metis surj_pair)
  obtain curAlert err w4 where fetch: "humio_GetAlert env config req ha (world s2) = ((curAlert, err), w4)"
    by (metis surj_pair)
  have rec: "Reconcile env r req s = (Returned Result0 None, Some ha2, s4)"
    using Reconcile_with_config [OF ns get nc cfg pass ref] .
  from statusRefresh_events [OF ref] obtain evs2 where
    e2: "trace s4 = trace s2 @ evs2" "filter isRemoteMutation evs2 = []"
        "length (filter isStatusWrite evs2) \<le> 1" "filter isObjectWrite evs2 = []"
        "filter isRemoteCall evs2 = [EvGetAlert]"
    by blast
  have t2: "trace s2 = trace s @ [EvGet, EvNewCluster]"
    using Get_trace [OF get] NewCluster_trace [OF nc] by simp
  have fins: "Finalizers ha2 = Finalizers ha"
    using statusRefresh_effect [OF ref fetch] by simp
  have "trace s4 = trace s @ ([EvGet, EvNewCluster] @ evs2)"
    using t2 e2 by simp
  moreover have "filter isRemoteCall ([EvGet, EvNewCluster] @ evs2) = [EvGetAlert]"
    using e2 by simp
  moreover have "filter isRemoteMutation ([EvGet, EvNewCluster] @ evs2) = []"
    using e2 by simp
  moreover have "filter isObjectWrite ([EvGet, EvNewCluster] @ evs2) = []"
    using e2 by simp
  moreover have "length (filter isStatusWrite ([EvGet, EvNewCluster] @ evs2)) \<le> 1"
    using e2 by simp
  ultimately show ?thesis using pass rec fins by blast
qed

lemma Reconcile_gone_run:
  "Reconcile (env_sim ha_gone) r0 req0 s_absent =
     (Returned Result0 None, Some (ha_gone\<lparr>ha_Status := \<lparr>State = HumioAlertStateNotFound\<rparr>\<rparr>),
      \<lparr>world = None,
       trace = [EvGet, EvNewCluster, EvGetAlert,
                EvStatusUpdate (ha_gone\<lparr>ha_Status := \<lparr>State = HumioAlertStateNotFound\<rparr>\<rparr>)]\<rparr>)"
  by (simp add: controller_defs call_defs scenario_defs humioFinalizer_def)

theorem Reconcile_deleted_without_finalizer_witness:
  "DeletionTimestamp ha_gone \<noteq> None \<and>
   \<not> ContainsElement (Finalizers ha_gone) humioFinalizer \<and>
   (r_Namespace r0 = '''' \<or> r_Namespace r0 = req_Namespace req0) \<and>
   Get (env_sim ha_gone) req0 s_absent = ((ha_gone, None), \<lparr>world = None, trace = [EvGet]\<rparr>) \<and>
   NewCluster (env_sim ha_gone) ha_gone \<lparr>world = None, trace = [EvGet]\<rparr> =
     ((Some \<lparr>cluster_Config = Some cfg0\<rparr>, None), \<lparr>world = None, trace = [EvGet, EvNewCluster]\<rparr>) \<and>
   usableConfig (Some \<lparr>cluster_Config = Some cfg0\<rparr>, None) = Some cfg0 \<and>
   reconcileHumioAlert (env_sim ha_gone) cfg0 ha_gone req0 \<lparr>world = None, trace = [EvGet, EvNewCluster]\<rparr> =
     (Returned Result0 None, ha_gone, \<lparr>world = None, trace = [EvGet, EvNewCluster]\<rparr>) \<and>
   fst (Reconcile (env_sim ha_gone) r0 req0 s_absent) = Returned Result0 None"
proof -
  let ?E = "env_sim ha_gone"
  have del: "DeletionTimestamp ha_gone \<noteq> None"
    by (simp add: scenario_defs)
  have fin: "\<not> ContainsElement (Finalizers ha_gone) humioFinalizer"
    by (simp add: scenario_defs ContainsElement_def)
  have ns: "r_Namespace r0 = '''' \<or> r_Namespace r0 = req_Namespace req0"
    by (simp add: scenario_defs)
  have get: "Get ?E req0 s_absent = ((ha_gone, None), \<lparr>world = None, trace = [EvGet]\<rparr>)"
    by (simp add: call_defs scenario_defs)
  have nc: "NewCluster ?E ha_gone \<lparr>world = None, trace = [EvGet]\<rparr> =
      ((Some \<lparr>cluster_Config = Some cfg0\<rparr>, None), \<lparr>world = None, trace = [EvGet, EvNewCluster]\<rparr>)"
    by (simp add: call_defs scenario_defs)
  have cfg: "usableConfig (Some \<lparr>cluster_Config = Some cfg0\<rparr>, None) = Some cfg0"
    by (simp add: usableConfig_def)
  from Reconcile_deleted_without_finalizer [OF del fin ns get nc cfg]
  have "reconcileHumioAlert ?E cfg0 ha_gone req0 \<lparr>world = None, trace = [EvGet, EvNewCluster]\<rparr> =
      (Returned Result0 None, ha_gone, \<lparr>world = None, trace = [EvGet, EvNewCluster]\<rparr>) \<and>
    fst (Reconcile ?E r0 req0 s_absent) = Returned Result0 None"
    by auto
  with del fin ns get nc cfg show ?thesis by simp
qed

text \<open>
  Read for the whole invocation, "zero remote calls" fails: the deferred refresh fetches
  the alert.
\<close>

theorem Reconcile_deleted_without_finalizer_counterexample:
  "DeletionTimestamp ha_gone \<noteq> None \<and>
   \<not> ContainsElement (Finalizers ha_gone) humioFinalizer \<and>
   k8s_Get (env_sim ha_gone) req0 None = ((ha_gone, None), None) \<and>
   fst (Reconcile (env_sim ha_gone) r0 req0 s_absent) = Returned Result0 None \<and>
   trace (snd (snd (Reconcile (env_sim ha_gone) r0 req0 s_absent))) =
     [EvGet, EvNewCluster, EvGetAlert,
      EvStatusUpdate (ha_gone\<lparr>ha_Status := \<lparr>State = HumioAlertStateNotFound\<rparr>\<rparr>)] \<and>
   filter isRemoteCall (trace (snd (snd (Reconcile (env_sim ha_gone) r0 req0 s_absent)))) = [EvGetAlert]"
  by (simp add: Reconcile_gone_run) (simp add: scenario_defs ContainsElement_def humioFinalizer_def)

subsection \<open>The configuration error path\<close>

text \<open>
  Claim C1, as the code has it. When no usable configuration is resolved, \<^verbatim>\<open>Reconcile\<close>
  sets the state of the object to \<open>ConfigError\<close>. Line 81 assigns the result of
  \<^verbatim>\<open>setState\<close> to \<^verbatim>\<open>err\<close>, the variable that held the error of the resolution, and
  line 85 returns that variable: so \<^verbatim>\<open>Reconcile\<close> returns the wrapped error of the
  status write when that write fails, and a nil error in every other case. The error of
  the resolution is never returned.
\<close>

theorem Reconcile_config_error_result:
  assumes ns: "r_Namespace r = '''' \<or> r_Namespace r = req_Namespace req"
    and get: "Get env req s = ((ha, None), s1)"
    and nc: "NewCluster env ha s1 = (res, s2)"
    and cfg: "usableConfig res = None"
    and run: "Reconcile env r req s = (out, hao, s')"
  shows "hao = Some (ha\<lparr>ha_Status := (ha_Status ha)\<lparr>State := HumioAlertStateConfigError\<rparr>\<rparr>) \<and>
         (if State (ha_Status ha) = HumioAlertStateConfigError
          then out = Returned Result0 None \<and> s' = s2
          else trace s' = trace s2 @ [EvStatusUpdate (the hao)] \<and>
               world s' = snd (k8s_Status_Update env (the hao) (world s2)) \<and>
               out = (case fst (k8s_Status_Update env (the hao) (world s2)) of
                        None \<Rightarrow> Returned Result0 None
                      | Some e \<Rightarrow> Returned Result0 (Some (logErrorAndReturn e ''unable to set alert state''))))"
proof -
  obtain serr ha1 s3 where st: "setState env HumioAlertStateConfigError ha s2 = (serr, ha1, s3)"
    by (metis prod_cases3)
  from run ns get nc cfg st have
    "hao = Some ha1" "s' = s3"
    "out = (case serr of None \<Rightarrow> Returned Result0 None
            | Some e \<Rightarrow> Returned Result0 (Some (logErrorAndReturn e ''unable to set alert state'')))"
    by (auto simp: Reconcile_def split: option.splits)
  with setState_effect [OF st] show ?thesis
    by (auto split: if_splits)
qed

theorem Reconcile_config_error_result_witness:
  "(r_Namespace r0 = '''' \<or> r_Namespace r0 = req_Namespace req0) \<and>
   Get (env_no_config ha_live) req0 s_present =
     ((ha_live, None), \<lparr>world = Some alert_remote, trace = [EvGet]\<rparr>) \<and>
   NewCluster (env_no_config ha_live) ha_live \<lparr>world = Some alert_remote, trace = [EvGet]\<rparr> =
     ((None, Some (ErrorString ''no such cluster'')),
      \<lparr>world = Some alert_remote, trace = [EvGet, EvNewCluster]\<rparr>) \<and>
   usableConfig (None, Some (ErrorString ''no such cluster'')) = None \<and>
   Reconcile (env_no_config ha_live) r0 req0 s_present =
     (Returned Result0 None,
      Some (ha_live\<lparr>ha_Status := \<lparr>State = HumioAlertStateConfigError\<rparr>\<rparr>),
      \<lparr>world = Some alert_remote,
       trace = [EvGet, EvNewCluster,
                EvStatusUpdate (ha_live\<lparr>ha_Status := \<lparr>State = HumioAlertStateConfigError\<rparr>\<rparr>)]\<rparr>)"
proof -
  let ?E = "env_no_config ha_live"
  have ns: "r_Namespace r0 = '''' \<or> r_Namespace r0 = req_Namespace req0"
    by (simp add: scenario_defs)
  have get: "Get ?E req0 s_present = ((ha_live, None), \<lparr>world = Some alert_remote, trace = [EvGet]\<rparr>)"
    by (simp add: call_defs scenario_defs)
  have nc: "NewCluster ?E ha_live \<lparr>world = Some alert_remote, trace = [EvGet]\<rparr> =
      ((None, Some (ErrorString ''no such cluster'')),
       \<lparr>world = Some alert_remote, trace = [EvGet, EvNewCluster]\<rparr>)"
    by (simp add: call_defs scenario_defs)
  have cfg: "usableConfig (None :: Cluster option, Some (ErrorString ''no such cluster'')) = None"
    by (simp add: usableConfig_def)
  obtain out hao s' where run: "Reconcile ?E r0 req0 s_present = (out, hao, s')"
    by (metis prod_cases3)
  have ne: "State (ha_Status ha_live) \<noteq> HumioAlertStateConfigError"
    by (simp add: scenario_defs HumioAlertStateConfigError_def HumioAlertStateExists_def)
  have wr: "k8s_Status_Update ?E h (Some alert_remote) = (None, Some alert_remote)" for h
    by (simp add: scenario_defs)
  from Reconcile_config_error_result [OF ns get nc cfg run] ne
  have h: "hao = Some (ha_live\<lparr>ha_Status := \<lparr>State = HumioAlertStateConfigError\<rparr>\<rparr>)"
    and t: "trace s' = [EvGet, EvNewCluster, EvStatusUpdate (the hao)]"
    and w0: "world s' = snd (k8s_Status_Update ?E (the hao) (Some alert_remote))"
    and o: "out = (case fst (k8s_Status_Update ?E (the hao) (Some alert_remote)) of
                        None \<Rightarrow> Returned Result0 None
                      | Some e \<Rightarrow> Returned Result0 (Some (logErrorAndReturn e ''unable to set alert state'')))"
    by (simp_all add: scenario_defs)
  have o': "out = Returned Result0 None"
    using o by (simp add: wr)
  have w: "world s' = Some alert_remote"
    using w0 by (simp add: wr)
  have "s' = \<lparr>world = Some alert_remote,
       trace = [EvGet, EvNewCluster,
                EvStatusUpdate (ha_live\<lparr>ha_Status := \<lparr>State = HumioAlertStateConfigError\<rparr>\<rparr>)]\<rparr>"
    using t w h by (cases s') simp
  with run h o' ns get nc cfg show ?thesis by simp
qed

end
